theory Spec2Isabelle
  imports Main "HOL-Library.AList"
begin

section \<open>JavaScript values used by the client\<close>

text \<open>
  The client is the class \<open>Feedly\<close> of \<open>src/index.js\<close>. A JavaScript string is modelled
  as a \<open>string\<close> whose characters stand for the code units of the string (so \<open>length\<close>
  is the \<open>.length\<close> of the source, for strings whose code units are below 256).

  A JavaScript value (a parsed response body, a property of the options, the stored
  tokens) is a \<open>jsval\<close>: a value as \<open>JSON.parse\<close> builds it, or \<open>undefined\<close>.
  A number is kept as the text that JavaScript prints for it (\<open>''200''\<close>, \<open>''1.5''\<close>; zero
  is \<open>''0''\<close>): the client only tests a value for truthiness, reads a property of it and
  concatenates it to a string. An object is the list of its own properties, in order,
  each name once.
\<close>

datatype jsval =
    Undefined
  | Null
  | Bool bool
  | Num string
  | Str string
  | Arr "jsval list"
  | Obj "(string \<times> jsval) list"

text \<open>An error object: its \<open>name\<close> and its \<open>message\<close>.\<close>

datatype error = Error string string

text \<open>\<open>Error.prototype.toString\<close>, which the template literal of \<open>catchError\<close> applies.\<close>

fun error_toString :: "error \<Rightarrow> string" where
  "error_toString (Error name msg) =
     (if name = [] then msg else if msg = [] then name else name @ '': '' @ msg)"

text \<open>The truth value of \<open>!v\<close> is \<open>\<not> truthy v\<close>.\<close>

fun truthy :: "jsval \<Rightarrow> bool" where
  "truthy Undefined = False"
| "truthy Null = False"
| "truthy (Bool b) = b"
| "truthy (Num r) = (r \<noteq> ''0'' \<and> r \<noteq> ''NaN'')"
| "truthy (Str s) = (s \<noteq> [])"
| "truthy (Arr xs) = True"
| "truthy (Obj kvs) = True"

fun join_comma :: "string list \<Rightarrow> string" where
  "join_comma [] = []"
| "join_comma [x] = x"
| "join_comma (x # y # ys) = x @ '','' @ join_comma (y # ys)"

text \<open>
  The string conversion of \<open>"OAuth " + v\<close> and of \<open>`${v}`\<close>. It throws a \<open>TypeError\<close> for an
  object that has a property \<open>toString\<close> of its own (a value that is not a function hides
  the method of the prototype, and \<open>valueOf\<close> returns the object), and for an array with
  such an element, whose elements are converted in turn.
\<close>

definition not_primitive :: error where
  "not_primitive = Error ''TypeError'' ''Cannot convert object to primitive value''"

fun first_error :: "(error + 'a) list \<Rightarrow> error + 'a list" where
  "first_error [] = Inr []"
| "first_error (Inl e # rs) = Inl e"
| "first_error (Inr x # rs) = (case first_error rs of Inl e \<Rightarrow> Inl e | Inr xs \<Rightarrow> Inr (x # xs))"

fun ToString :: "jsval \<Rightarrow> error + string" where
  "ToString Undefined = Inr ''undefined''"
| "ToString Null = Inr ''null''"
| "ToString (Bool b) = Inr (if b then ''true'' else ''false'')"
| "ToString (Num r) = Inr r"
| "ToString (Str s) = Inr s"
| "ToString (Arr xs) =
     (case first_error (map (\<lambda>x. if x = Null \<or> x = Undefined then Inr [] else ToString x) xs) of
        Inl e \<Rightarrow> Inl e
      | Inr ss \<Rightarrow> Inr (join_comma ss))"
| "ToString (Obj kvs) =
     (if ''toString'' \<in> set (map fst kvs) then Inl not_primitive else Inr ''[object Object]'')"

text \<open>Decimal text of a natural number, as a template literal prints a length.\<close>

definition digit_char :: "nat \<Rightarrow> char" where
  "digit_char d = ''0123456789'' ! d"

fun show_nat :: "nat \<Rightarrow> string" where
  "show_nat n = (if n < 10 then [digit_char n] else show_nat (n div 10) @ [digit_char (n mod 10)])"

declare show_nat.simps [simp del]

text \<open>
  \<open>String.prototype.substring(start, end)\<close>: both indices are clamped to
  \<open>0 .. length\<close> (a negative index is 0) and swapped when \<open>start > end\<close>.
  With one argument, \<open>end\<close> is the length.
\<close>

definition substring :: "string \<Rightarrow> int \<Rightarrow> int \<Rightarrow> string" where
  "substring str start end' =
     (let len = int (length str);
          finalStart = min (max start 0) len;
          finalEnd = min (max end' 0) len;
          from = min finalStart finalEnd;
          to = max finalStart finalEnd
      in take (nat (to - from)) (drop (nat from) str))"

definition substring1 :: "string \<Rightarrow> int \<Rightarrow> string" where
  "substring1 str start = substring str start (int (length str))"

text \<open>
  \<open>parseInt(v, 10)\<close> on the result of \<open>headers.get\<close> (a string, or \<open>null\<close> for a missing
  header, which is converted to the text \<open>null\<close>): leading white space is skipped, one sign
  is read, then the longest run of decimal digits; no digit gives \<open>NaN\<close>. The result is
  the mathematical integer (JavaScript rounds it to a double beyond \<open>2^53\<close>).
\<close>

datatype jsnum = NaN | Number int

definition StrWhiteSpaceChar :: "char \<Rightarrow> bool" where
  "StrWhiteSpaceChar c \<longleftrightarrow>
     c \<in> set [CHR 0x09, CHR 0x0A, CHR 0x0B, CHR 0x0C, CHR 0x0D, CHR 0x20, CHR 0xA0]"

definition digit_val :: "char \<Rightarrow> nat option" where
  "digit_val c = map_of (zip ''0123456789'' [0, 1, 2, 3, 4, 5, 6, 7, 8, 9]) c"

fun digits_val :: "nat \<Rightarrow> string \<Rightarrow> nat" where
  "digits_val acc [] = acc"
| "digits_val acc (c # cs) = digits_val (acc * 10 + (case digit_val c of None \<Rightarrow> 0 | Some d \<Rightarrow> d)) cs"

definition parseInt :: "string option \<Rightarrow> jsnum" where
  "parseInt v =
     (let inputString = (case v of None \<Rightarrow> ''null'' | Some s \<Rightarrow> s);
          S = dropWhile StrWhiteSpaceChar inputString;
          sign = (case S of c # cs \<Rightarrow> if c = CHR ''-'' then - 1 else (1 :: int) | [] \<Rightarrow> 1);
          S' = (case S of c # cs \<Rightarrow> if c = CHR ''-'' \<or> c = CHR ''+'' then cs else S | [] \<Rightarrow> S);
          Z = takeWhile (\<lambda>c. digit_val c \<noteq> None) S'
      in if Z = [] then NaN else Number (sign * int (digits_val 0 Z)))"

text \<open>
  \<open>JSON.stringify\<close>: strings are quoted with the JSON escapes, a number that is not finite
  is \<open>null\<close>, an array prints \<open>null\<close> for an element that is \<open>undefined\<close>, an object prints
  its properties in order and leaves out those that are \<open>undefined\<close>. The result \<open>None\<close> is
  \<open>undefined\<close>.
\<close>

definition hex_digit :: "nat \<Rightarrow> char" where
  "hex_digit d = ''0123456789abcdef'' ! d"

definition escape_unit :: "char \<Rightarrow> string" where
  "escape_unit c =
     (if c = CHR 0x08 then [CHR 0x5C, CHR ''b'']
      else if c = CHR 0x09 then [CHR 0x5C, CHR ''t'']
      else if c = CHR 0x0A then [CHR 0x5C, CHR ''n'']
      else if c = CHR 0x0C then [CHR 0x5C, CHR ''f'']
      else if c = CHR 0x0D then [CHR 0x5C, CHR ''r'']
      else if c = CHR 0x22 then [CHR 0x5C, CHR 0x22]
      else if c = CHR 0x5C then [CHR 0x5C, CHR 0x5C]
      else if (of_char c :: nat) < 32
        then [CHR 0x5C, CHR ''u'', CHR ''0'', CHR ''0'',
              hex_digit (of_char c div 16), hex_digit (of_char c mod 16)]
      else [c])"

definition QuoteJSONString :: "string \<Rightarrow> string" where
  "QuoteJSONString s = [CHR 0x22] @ concat (map escape_unit s) @ [CHR 0x22]"

fun JSON_stringify :: "jsval \<Rightarrow> string option" where
  "JSON_stringify Undefined = None"
| "JSON_stringify Null = Some ''null''"
| "JSON_stringify (Bool b) = Some (if b then ''true'' else ''false'')"
| "JSON_stringify (Num r) =
     Some (if r = ''NaN'' \<or> r = ''Infinity'' \<or> r = ''-Infinity'' then ''null'' else r)"
| "JSON_stringify (Str s) = Some (QuoteJSONString s)"
| "JSON_stringify (Arr xs) =
     Some (''['' @ join_comma
        (map (\<lambda>x. case JSON_stringify x of None \<Rightarrow> ''null'' | Some t \<Rightarrow> t) xs) @ '']'')"
| "JSON_stringify (Obj kvs) =
     Some (''{'' @ join_comma
        (concat (map (\<lambda>kv. case JSON_stringify (snd kv) of
                              None \<Rightarrow> []
                            | Some t \<Rightarrow> [QuoteJSONString (fst kv) @ '':'' @ t]) kvs)) @ ''}'')"

text \<open>
  Reading a property \<open>v.k\<close>. On \<open>undefined\<close> and \<open>null\<close> it throws a \<open>TypeError\<close>. The
  client reads only the properties \<open>access_token\<close> and \<open>length\<close>, so for a string and an
  array \<open>length\<close> is the one property that is modelled.
\<close>

fun getprop :: "jsval \<Rightarrow> string \<Rightarrow> error + jsval" where
  "getprop Undefined k =
     Inl (Error ''TypeError'' (''Cannot read properties of undefined (reading '' @ [CHR 0x27] @ k @ [CHR 0x27] @ '')''))"
| "getprop Null k =
     Inl (Error ''TypeError'' (''Cannot read properties of null (reading '' @ [CHR 0x27] @ k @ [CHR 0x27] @ '')''))"
| "getprop (Obj kvs) k = Inr (case map_of kvs k of None \<Rightarrow> Undefined | Some v \<Rightarrow> v)"
| "getprop (Str s) k = Inr (if k = ''length'' then Num (show_nat (length s)) else Undefined)"
| "getprop (Arr xs) k = Inr (if k = ''length'' then Num (show_nat (length xs)) else Undefined)"
| "getprop (Bool b) k = Inr Undefined"
| "getprop (Num r) k = Inr Undefined"

text \<open>The own enumerable properties that the spread \<open>{...v}\<close> copies.\<close>

fun spread :: "jsval \<Rightarrow> (string \<times> jsval) list" where
  "spread (Obj kvs) = kvs"
| "spread (Arr xs) = zip (map show_nat [0 ..< length xs]) xs"
| "spread (Str s) = zip (map show_nat [0 ..< length s]) (map (\<lambda>c. Str [c]) s)"
| "spread v = []"

section \<open>The data of the client\<close>

text \<open>
  \<open>FeedlyInit\<close>, the options of the constructor: \<open>None\<close> is a property that the options
  do not have, \<open>Some v\<close> one that they have, of any value (\<open>Some Undefined\<close> and \<open>Some Null\<close>
  are \<open>undefined\<close> and \<open>null\<close> written out).
\<close>

record FeedlyInit =
  opt_baseUrl :: "jsval option"
  opt_accessToken :: "jsval option"
  opt_refreshToken :: "jsval option"
  opt_refreshTokenInstant :: "jsval option"

text \<open>
  \<open>RequestInit\<close>, the options of \<open>request\<close> and of \<open>fetch\<close>: \<open>None\<close> is a property the
  object does not have; \<open>headers = Some []\<close> is \<open>headers: {}\<close>.
\<close>

record RequestInit =
  http_method :: "string option"
  headers :: "(string \<times> string) list option"
  body_text :: "string option"

text \<open>
  The response object of \<open>fetch\<close>: its status, what \<open>headers.get(name)\<close> returns
  (\<open>None\<close> is \<open>null\<close>) and what the promise of \<open>json()\<close> settles to (\<open>Inl\<close> is a
  rejection, as for a body that is not JSON).
\<close>

record Response =
  status :: nat
  headers_get :: "string \<Rightarrow> string option"
  json :: "error + jsval"

text \<open>\<open>FeedlyResponse\<close>, the value \<open>{response, body}\<close>.\<close>

record FeedlyResponse =
  response :: Response
  body :: jsval

text \<open>One call of \<open>fetch(url, init)\<close>.\<close>

record fetch_call =
  call_url :: string
  call_init :: RequestInit

text \<open>
  The network: what the promise of the \<open>n\<close>-th call of \<open>fetch\<close> settles to, \<open>Inl\<close> for
  a rejection (no response was received), \<open>Inr\<close> for a response (of any status).
\<close>

type_synonym net = "nat \<Rightarrow> fetch_call \<Rightarrow> error + Response"

datatype log_entry =
    ConsoleError string
  | ConsoleInfo string jsval

text \<open>
  The state: the fields of \<open>this[INTERNALS]\<close> (the options and \<open>lastResponse\<close>), then the
  calls of \<open>fetch\<close> made so far and the lines written to the console, oldest first.
  The fields \<open>baseUrl\<close>, \<open>accessToken\<close>, \<open>refreshToken\<close> and \<open>lastResponse\<close> are also the
  getters of the class.
\<close>

record state =
  baseUrl :: string
  accessToken :: jsval
  refreshToken :: jsval
  refreshTokenInstant :: bool
  lastResponse :: "Response option"
  fetched :: "fetch_call list"
  console :: "log_entry list"

section \<open>The operations of the client\<close>

subsection \<open>Promises\<close>

text \<open>
  A settled promise is a value \<open>error + 'a\<close>: \<open>Inl\<close> a rejection, \<open>Inr\<close> the value it
  resolved with. Each asynchronous operation is run to its end before the next one
  starts, and returns the state it leaves with the way its promise settled.
  \<open>Promise_then\<close> is \<open>p.then(f)\<close> (also \<open>await p\<close> followed by \<open>f\<close>): a rejection
  passes through. \<open>Promise_catch\<close> is \<open>p.catch(h)\<close> for a handler that returns nothing:
  after a rejection the promise resolves with \<open>undefined\<close>, which is \<open>None\<close>.
\<close>

definition Promise_then ::
  "('a \<Rightarrow> state \<Rightarrow> state \<times> (error + 'b)) \<Rightarrow> state \<times> (error + 'a) \<Rightarrow> state \<times> (error + 'b)" where
  "Promise_then f sp = (case sp of (s, Inl e) \<Rightarrow> (s, Inl e) | (s, Inr v) \<Rightarrow> f v s)"

definition Promise_catch ::
  "(error \<Rightarrow> state \<Rightarrow> state) \<Rightarrow> state \<times> (error + 'a) \<Rightarrow> state \<times> (error + 'a option)" where
  "Promise_catch h sp = (case sp of (s, Inl e) \<Rightarrow> (h e s, Inr None) | (s, Inr v) \<Rightarrow> (s, Inr (Some v)))"

subsection \<open>The constructor\<close>

text \<open>
  \<open>Object.assign\<close> of the defaults and the options (a property that the options have
  replaces the default, whatever its value), the trimming of the base URL with
  \<open>substring(-1)\<close> and \<open>substring(0, -1)\<close>, then the check of the refresh token, which
  throws. Calling \<open>baseUrl.substring\<close> throws a \<open>TypeError\<close> when the base URL is
  \<open>undefined\<close> or \<open>null\<close>, and when it is any other value that is not a string (it has no
  such method). When \<open>refreshTokenInstant\<close> is set the constructor also starts
  \<open>refreshAuthToken()\<close> and does not await it: that task is \<open>instant_refresh\<close> below,
  which runs after the constructor has returned.
\<close>

fun call_substring :: "jsval \<Rightarrow> error + string" where
  "call_substring (Str b) = Inr b"
| "call_substring Undefined =
     Inl (Error ''TypeError''
       (''Cannot read properties of undefined (reading '' @ [CHR 0x27] @ ''substring'' @ [CHR 0x27] @ '')''))"
| "call_substring Null =
     Inl (Error ''TypeError''
       (''Cannot read properties of null (reading '' @ [CHR 0x27] @ ''substring'' @ [CHR 0x27] @ '')''))"
| "call_substring v =
     Inl (Error ''TypeError'' ''this[INTERNALS].options.baseUrl.substring is not a function'')"

definition "constructor" :: "FeedlyInit \<Rightarrow> error + state" where
  "constructor options =
     (let b0 = (case opt_baseUrl options of None \<Rightarrow> Str ''https://cloud.feedly.com'' | Some v \<Rightarrow> v);
          a0 = (case opt_accessToken options of None \<Rightarrow> Null | Some v \<Rightarrow> v);
          r0 = (case opt_refreshToken options of None \<Rightarrow> Null | Some v \<Rightarrow> v);
          i0 = (case opt_refreshTokenInstant options of None \<Rightarrow> Bool False | Some v \<Rightarrow> v)
      in case call_substring b0 of
           Inl e \<Rightarrow> Inl e
         | Inr b \<Rightarrow>
             (let b1 = (if substring1 b (- 1) = ''/'' then substring b 0 (- 1) else b)
              in if \<not> truthy r0 then Inl (Error ''TypeError'' ''`refreshToken` is required!'')
                 else Inr \<lparr>baseUrl = b1,
                           accessToken = a0,
                           refreshToken = r0,
                           refreshTokenInstant = truthy i0,
                           lastResponse = None,
                           fetched = [],
                           console = []\<rparr>))"

subsection \<open>request, refreshAuthToken and their helpers\<close>

text \<open>\<open>catchError(prefix)\<close> is the handler that writes \<open>`${prefix}: ${error}`\<close> to the console.\<close>

definition catchError :: "string \<Rightarrow> error \<Rightarrow> state \<Rightarrow> state" where
  "catchError prefix e s = s\<lparr>console := console s @ [ConsoleError (prefix @ '': '' @ error_toString e)]\<rparr>"

definition returnResponse :: "Response \<Rightarrow> error + FeedlyResponse" where
  "returnResponse r = (case json r of Inl e \<Rightarrow> Inl e | Inr j \<Rightarrow> Inr \<lparr>response = r, body = j\<rparr>)"

text \<open>
  \<open>Object.assign({headers: {Authorization: "OAuth " + this.accessToken}}, options)\<close>:
  the default object, whose string conversion of the token may throw, and the
  assignment, in which every property that \<open>options\<close> has replaces the one of the target.
\<close>

definition default_init :: "state \<Rightarrow> error + RequestInit" where
  "default_init s =
     (case ToString (accessToken s) of
        Inl e \<Rightarrow> Inl e
      | Inr a \<Rightarrow>
          Inr \<lparr>http_method = None,
               headers = Some [(''Authorization'', ''OAuth '' @ a)],
               body_text = None\<rparr>)"

definition Object_assign :: "RequestInit \<Rightarrow> RequestInit \<Rightarrow> RequestInit" where
  "Object_assign target source =
     \<lparr>http_method = (case http_method source of None \<Rightarrow> http_method target | Some m \<Rightarrow> Some m),
      headers = (case headers source of None \<Rightarrow> headers target | Some h \<Rightarrow> Some h),
      body_text = (case body_text source of None \<Rightarrow> body_text target | Some b \<Rightarrow> Some b)\<rparr>"

definition fetch :: "net \<Rightarrow> fetch_call \<Rightarrow> state \<Rightarrow> state \<times> (error + Response)" where
  "fetch net c s = (s\<lparr>fetched := fetched s @ [c]\<rparr>, net (length (fetched s)) c)"

text \<open>
  The expression that \<open>request\<close> returns:
  \<open>fetch(...).then(response => {lastResponse = response; return response})
   .then(Feedly.returnResponse).catch(Feedly.catchError(...))\<close>.
  The arguments of \<open>fetch\<close> are evaluated first, before there is a promise to catch on:
  when the default header cannot be built, \<open>request\<close> (an \<open>async\<close> function) rejects
  with that error and nothing is sent.
\<close>

definition fetch_chain :: "net \<Rightarrow> string \<Rightarrow> RequestInit \<Rightarrow> state \<Rightarrow> state \<times> (error + FeedlyResponse option)" where
  "fetch_chain net url options s =
     (case default_init s of
        Inl e \<Rightarrow> (s, Inl e)
      | Inr d \<Rightarrow>
          Promise_catch (catchError (''Failed to make call to '' @ url))
            (Promise_then (\<lambda>r s'. (s', returnResponse r))
              (Promise_then (\<lambda>r s'. (s'\<lparr>lastResponse := Some r\<rparr>, Inr r))
                (fetch net \<lparr>call_url = baseUrl s @ url,
                            call_init = Object_assign d options\<rparr> s))))"

text \<open>
  \<open>logAuthBody\<close>: the copy of the body, the placeholder built from
  \<open>body.access_token.length\<close> (reading it throws when the token is missing or \<open>null\<close>,
  printing it throws when it has no string conversion), then the line written with
  \<open>console.info\<close>.
\<close>

definition logAuthBody :: "jsval \<Rightarrow> state \<Rightarrow> error + state" where
  "logAuthBody b s =
     (let bodyCopy = spread b
      in case getprop b ''access_token'' of
           Inl e \<Rightarrow> Inl e
         | Inr t \<Rightarrow>
             (case getprop t ''length'' of
                Inl e \<Rightarrow> Inl e
              | Inr n \<Rightarrow>
                  (case ToString n of
                     Inl e \<Rightarrow> Inl e
                   | Inr l \<Rightarrow>
                       Inr (s\<lparr>console := console s @
                             [ConsoleInfo ''Refresh of tokens was successful: %o''
                                (Obj (AList.update ''access_token''
                                        (Str (''String['' @ l @ '']'')) bodyCopy))]\<rparr>))))"

text \<open>The options that \<open>refreshAuthToken\<close> passes to \<open>request\<close>.\<close>

definition refresh_options :: "state \<Rightarrow> RequestInit" where
  "refresh_options s =
     \<lparr>http_method = Some ''POST'',
      headers = Some [],
      body_text = JSON_stringify (Obj
        [(''refresh_token'', refreshToken s),
         (''client_id'', Str ''feedlydev''),
         (''client_secret'', Str ''feedlydev''),
         (''grant_type'', Str ''refresh_token'')])\<rparr>"

text \<open>
  The callback \<open>({response, body}) => {...}\<close> of \<open>refreshAuthToken\<close>. Its parameter is
  \<open>undefined\<close> when \<open>request\<close> has caught an error, and destructuring it throws.
  (It is not called at all when \<open>request\<close> has rejected.)
\<close>

definition destructure_error :: error where
  "destructure_error =
     Error ''TypeError''
       (''Cannot destructure property '' @ [CHR 0x27] @ ''response'' @ [CHR 0x27] @ '' of '' @
        [CHR 0x27] @ ''undefined'' @ [CHR 0x27] @ '' as it is undefined.'')"

fun refresh_callback :: "FeedlyResponse option \<Rightarrow> state \<Rightarrow> state \<times> (error + unit)" where
  "refresh_callback None s = (s, Inl destructure_error)"
| "refresh_callback (Some res) s =
     (case logAuthBody (body res) s of
        Inl e \<Rightarrow> (s, Inl e)
      | Inr s1 \<Rightarrow>
          (case getprop (body res) ''access_token'' of
             Inl e \<Rightarrow> (s1, Inl e)
           | Inr t \<Rightarrow> (s1\<lparr>accessToken := t\<rparr>, Inr ())))"

text \<open>
  \<open>request\<close> and \<open>refreshAuthToken\<close> call each other. The value \<open>undefined\<close> that
  \<open>refreshAuthToken\<close> resolves with is \<open>Some ()\<close> after its callback and \<open>None\<close> after its
  handler.
\<close>

function request :: "net \<Rightarrow> string \<Rightarrow> RequestInit \<Rightarrow> state \<Rightarrow> state \<times> (error + FeedlyResponse option)"
  and refreshAuthToken :: "net \<Rightarrow> state \<Rightarrow> state \<times> (error + unit option)" where
  "request net url options s =
     (if \<not> truthy (accessToken s) \<and> url \<noteq> ''/v3/auth/token''
      then Promise_then (\<lambda>u s1. fetch_chain net url options s1) (refreshAuthToken net s)
      else fetch_chain net url options s)"
| "refreshAuthToken net s =
     Promise_catch (catchError ''Failed to refresh token'')
       (Promise_then refresh_callback
         (request net ''/v3/auth/token'' (refresh_options s) s))"
  by pat_completeness auto
termination
  by (relation "measure (\<lambda>x. case x of
          Inl (net, url, options, s) \<Rightarrow> (if url = ''/v3/auth/token'' then 0 else 2)
        | Inr (net, s) \<Rightarrow> Suc 0)") auto

declare request.simps [simp del] refreshAuthToken.simps [simp del]

text \<open>The task that the constructor starts when \<open>refreshTokenInstant\<close> is set.\<close>

definition instant_refresh :: "net \<Rightarrow> state \<Rightarrow> state" where
  "instant_refresh net s = (if refreshTokenInstant s then fst (refreshAuthToken net s) else s)"

subsection \<open>The endpoints\<close>

definition no_options :: RequestInit where
  "no_options = \<lparr>http_method = None, headers = None, body_text = None\<rparr>"

definition profile :: "net \<Rightarrow> state \<Rightarrow> state \<times> (error + FeedlyResponse option)" where
  "profile net s = request net ''/v3/profile'' no_options s"

definition collections :: "net \<Rightarrow> state \<Rightarrow> state \<times> (error + FeedlyResponse option)" where
  "collections net s = request net ''/v3/collections'' no_options s"

definition subscriptions :: "net \<Rightarrow> state \<Rightarrow> state \<times> (error + FeedlyResponse option)" where
  "subscriptions net s = request net ''/v3/subscriptions'' no_options s"

text \<open>
  \<open>streams\<close>: the argument \<open>query\<close> is the text that
  \<open>querystring.stringify({...options, streamId: streamId})\<close> returns.
\<close>

definition streams :: "net \<Rightarrow> string \<Rightarrow> state \<Rightarrow> state \<times> (error + FeedlyResponse option)" where
  "streams net query s = request net (''/v3/streams/contents?'' @ query) no_options s"

text \<open>
  A caller that makes one call of \<open>request\<close> after the other, each awaited before the
  next: the list holds the path and the options of each call.
\<close>

fun requests :: "net \<Rightarrow> (string \<times> RequestInit) list \<Rightarrow> state \<Rightarrow> state" where
  "requests net [] s = s"
| "requests net ((url, options) # rs) s = requests net rs (fst (request net url options s))"

subsection \<open>The rate limit\<close>

record RateLimit =
  count :: jsnum
  reset :: jsnum

definition ratelimit :: "state \<Rightarrow> error + RateLimit" where
  "ratelimit s =
     (case lastResponse s of
        None \<Rightarrow> Inl (Error ''Error'' ''Cannot get rate limits: There was no response yet'')
      | Some r \<Rightarrow>
          Inr \<lparr>count = parseInt (headers_get r ''X-Ratelimit-Count''),
               reset = parseInt (headers_get r ''X-Ratelimit-Reset'')\<rparr>)"

section \<open>Example runs\<close>

text \<open>
  A client as the constructor leaves it for the options \<open>{refreshToken: "r3fresh"}\<close>, and
  networks to run it against: the responses of the token endpoint and of any other
  endpoint, a network that is down, and a server that answers with a page that is not JSON.
\<close>

definition example_client :: state where
  "example_client =
     \<lparr>baseUrl = ''https://cloud.feedly.com'', accessToken = Null, refreshToken = Str ''r3fresh'',
      refreshTokenInstant = False, lastResponse = None, fetched = [], console = []\<rparr>"

definition token_response :: Response where
  "token_response =
     \<lparr>status = 200, headers_get = (\<lambda>name. None),
      json = Inr (Obj [(''id'', Str ''u1''), (''access_token'', Str ''abc123''), (''plan'', Str ''pro'')])\<rparr>"

definition profile_response :: Response where
  "profile_response =
     \<lparr>status = 200,
      headers_get = (\<lambda>name. if name = ''X-Ratelimit-Count'' then Some ''200''
                             else if name = ''X-Ratelimit-Reset'' then Some ''1700000000'' else None),
      json = Inr (Obj [(''id'', Str ''u1'')])\<rparr>"

definition net_ok :: net where
  "net_ok n c =
     (if call_url c = ''https://cloud.feedly.com/v3/auth/token'' then Inr token_response
      else Inr profile_response)"

definition html_response :: Response where
  "html_response =
     \<lparr>status = 502, headers_get = (\<lambda>name. None),
      json = Inl (Error ''FetchError'' ''invalid json response body'')\<rparr>"

definition net_html :: net where
  "net_html n c = Inr html_response"

definition net_down :: net where
  "net_down n c = Inl (Error ''FetchError'' ''request failed'')"


text \<open>
  A token endpoint whose answer repeats the token under a second property, and options
  that bring headers of their own.
\<close>

definition echo_response :: Response where
  "echo_response =
     \<lparr>status = 200, headers_get = (\<lambda>name. None),
      json = Inr (Obj [(''access_token'', Str ''abc123''), (''token'', Str ''abc123'')])\<rparr>"

definition net_echo :: net where
  "net_echo n c =
     (if call_url c = ''https://cloud.feedly.com/v3/auth/token'' then Inr echo_response
      else Inr profile_response)"

definition json_options :: RequestInit where
  "json_options =
     \<lparr>http_method = None, headers = Some [(''Content-Type'', ''application/json'')],
      body_text = None\<rparr>"



section \<open>Basic facts\<close>

text \<open>
  The promise chain of \<open>request\<close> case by case, what each operation leaves of the state,
  and the ways a refresh can go.
\<close>

lemma fetch_chain_eq:
  "fetch_chain net url options s =
     (case default_init s of
        Inl e \<Rightarrow> (s, Inl e)
      | Inr d \<Rightarrow>
          (let c = \<lparr>call_url = baseUrl s @ url, call_init = Object_assign d options\<rparr>;
               s1 = s\<lparr>fetched := fetched s @ [c]\<rparr>
           in case net (length (fetched s)) c of
                Inl e \<Rightarrow> (catchError (''Failed to make call to '' @ url) e s1, Inr None)
              | Inr r \<Rightarrow>
                  (case json r of
                     Inl e \<Rightarrow> (catchError (''Failed to make call to '' @ url) e (s1\<lparr>lastResponse := Some r\<rparr>), Inr None)
                   | Inr j \<Rightarrow> (s1\<lparr>lastResponse := Some r\<rparr>, Inr (Some \<lparr>response = r, body = j\<rparr>)))))"
  by (simp add: fetch_chain_def fetch_def Promise_then_def Promise_catch_def returnResponse_def Let_def
      split: sum.splits)

lemma request_token_path:
  "request net ''/v3/auth/token'' options s = fetch_chain net ''/v3/auth/token'' options s"
  by (simp add: request.simps)

lemma refreshAuthToken_eq:
  "refreshAuthToken net s =
     Promise_catch (catchError ''Failed to refresh token'')
       (Promise_then refresh_callback (fetch_chain net ''/v3/auth/token'' (refresh_options s) s))"
  by (simp add: refreshAuthToken.simps request_token_path)

lemma Promise_catch_resolves: "\<exists>v. snd (Promise_catch h sp) = Inr v"
  by (cases sp) (auto simp: Promise_catch_def split: sum.splits)



lemma refreshAuthToken_resolves: "\<exists>u. snd (refreshAuthToken net s) = Inr u"
  unfolding refreshAuthToken_eq by (rule Promise_catch_resolves)

lemma request_eq:
  "request net url options s =
     (if \<not> truthy (accessToken s) \<and> url \<noteq> ''/v3/auth/token''
      then fetch_chain net url options (fst (refreshAuthToken net s))
      else fetch_chain net url options s)"
proof -
  obtain u where "snd (refreshAuthToken net s) = Inr u"
    using refreshAuthToken_resolves by blast
  then have "refreshAuthToken net s = (fst (refreshAuthToken net s), Inr u)"
    by (metis prod.collapse)
  then have "Promise_then (\<lambda>u s1. fetch_chain net url options s1) (refreshAuthToken net s)
      = fetch_chain net url options (fst (refreshAuthToken net s))"
    by (metis (no_types, lifting) Promise_then_def old.prod.case sum.simps(6))
  then show ?thesis by (simp add: request.simps)
qed

lemma catchError_fields [simp]:
  "baseUrl (catchError p e s) = baseUrl s"
  "accessToken (catchError p e s) = accessToken s"
  "refreshToken (catchError p e s) = refreshToken s"
  "refreshTokenInstant (catchError p e s) = refreshTokenInstant s"
  "lastResponse (catchError p e s) = lastResponse s"
  "fetched (catchError p e s) = fetched s"
  "console (catchError p e s) = console s @ [ConsoleError (p @ '': '' @ error_toString e)]"
  by (simp_all add: catchError_def)

lemma fetch_chain_frame:
  "baseUrl (fst (fetch_chain net url options s)) = baseUrl s"
  "accessToken (fst (fetch_chain net url options s)) = accessToken s"
  "refreshToken (fst (fetch_chain net url options s)) = refreshToken s"
  "refreshTokenInstant (fst (fetch_chain net url options s)) = refreshTokenInstant s"
  by (simp_all add: fetch_chain_eq Let_def split: sum.splits)

lemma fetch_chain_fetched:
  "fetched (fst (fetch_chain net url options s)) =
     fetched s @
       (case default_init s of
          Inl e \<Rightarrow> []
        | Inr d \<Rightarrow> [\<lparr>call_url = baseUrl s @ url, call_init = Object_assign d options\<rparr>])"
  by (simp add: fetch_chain_eq Let_def split: sum.splits)

lemma fetch_chain_lastResponse:
  "lastResponse (fst (fetch_chain net url options s)) =
     (case default_init s of
        Inl e \<Rightarrow> lastResponse s
      | Inr d \<Rightarrow>
          (case net (length (fetched s))
                  \<lparr>call_url = baseUrl s @ url, call_init = Object_assign d options\<rparr> of
             Inl e \<Rightarrow> lastResponse s
           | Inr r \<Rightarrow> Some r))"
  by (simp add: fetch_chain_eq Let_def split: sum.splits)

lemma logAuthBody_fields:
  "logAuthBody b s = Inr s1 \<Longrightarrow>
     baseUrl s1 = baseUrl s \<and> accessToken s1 = accessToken s \<and> refreshToken s1 = refreshToken s \<and>
     refreshTokenInstant s1 = refreshTokenInstant s \<and> lastResponse s1 = lastResponse s \<and>
     fetched s1 = fetched s"
  by (auto simp: logAuthBody_def Let_def split: sum.splits)

lemma refresh_callback_frame:
  "baseUrl (fst (refresh_callback v s)) = baseUrl s"
  "refreshToken (fst (refresh_callback v s)) = refreshToken s"
  "refreshTokenInstant (fst (refresh_callback v s)) = refreshTokenInstant s"
  "lastResponse (fst (refresh_callback v s)) = lastResponse s"
  "fetched (fst (refresh_callback v s)) = fetched s"
  by (cases v; auto split: sum.splits dest: logAuthBody_fields)+

lemma refresh_callback_failed:
  "snd (refresh_callback v s) = Inl e \<Longrightarrow> fst (refresh_callback v s) = s"
  by (cases v) (auto split: sum.splits simp: logAuthBody_def Let_def)

lemma refreshAuthToken_cases:
  "refreshAuthToken net s =
     (case fetch_chain net ''/v3/auth/token'' (refresh_options s) s of
        (s1, Inl e) \<Rightarrow> (catchError ''Failed to refresh token'' e s1, Inr None)
      | (s1, Inr v) \<Rightarrow>
          (case refresh_callback v s1 of
             (s2, Inl e) \<Rightarrow> (catchError ''Failed to refresh token'' e s2, Inr None)
           | (s2, Inr u) \<Rightarrow> (s2, Inr (Some u))))"
  by (simp add: refreshAuthToken_eq Promise_then_def Promise_catch_def split: prod.splits sum.splits)

lemma refreshAuthToken_frame:
  "baseUrl (fst (refreshAuthToken net s)) = baseUrl s"
  "refreshToken (fst (refreshAuthToken net s)) = refreshToken s"
  "refreshTokenInstant (fst (refreshAuthToken net s)) = refreshTokenInstant s"
proof -
  obtain s1 p where c: "fetch_chain net ''/v3/auth/token'' (refresh_options s) s = (s1, p)"
    by (cases "fetch_chain net ''/v3/auth/token'' (refresh_options s) s")
  have f: "baseUrl s1 = baseUrl s" "refreshToken s1 = refreshToken s"
      "refreshTokenInstant s1 = refreshTokenInstant s"
    using fetch_chain_frame [of net "''/v3/auth/token''" "refresh_options s" s] c by simp_all
  show "baseUrl (fst (refreshAuthToken net s)) = baseUrl s"
    using f refresh_callback_frame(1)
    by (auto simp: refreshAuthToken_cases c split: sum.splits prod.splits) (metis fst_conv)+
  show "refreshToken (fst (refreshAuthToken net s)) = refreshToken s"
    using f refresh_callback_frame(2)
    by (auto simp: refreshAuthToken_cases c split: sum.splits prod.splits) (metis fst_conv)+
  show "refreshTokenInstant (fst (refreshAuthToken net s)) = refreshTokenInstant s"
    using f refresh_callback_frame(3)
    by (auto simp: refreshAuthToken_cases c split: sum.splits prod.splits) (metis fst_conv)+
qed

lemma refreshAuthToken_failed_token:
  "snd (refreshAuthToken net s) = Inr None \<Longrightarrow> accessToken (fst (refreshAuthToken net s)) = accessToken s"
proof -
  assume a: "snd (refreshAuthToken net s) = Inr None"
  obtain s1 p where c: "fetch_chain net ''/v3/auth/token'' (refresh_options s) s = (s1, p)"
    by (cases "fetch_chain net ''/v3/auth/token'' (refresh_options s) s")
  have f: "accessToken s1 = accessToken s"
    using fetch_chain_frame(2) [of net "''/v3/auth/token''" "refresh_options s" s] c by simp
  show ?thesis
  proof (cases p)
    case (Inl e)
    then show ?thesis using f by (simp add: refreshAuthToken_cases c)
  next
    case (Inr v)
    obtain s2 q where r: "refresh_callback v s1 = (s2, q)" by (cases "refresh_callback v s1")
    show ?thesis
    proof (cases q)
      case (Inl e)
      then have "s2 = s1" using refresh_callback_failed [of v s1 e] r by simp
      then show ?thesis using f Inl Inr by (simp add: refreshAuthToken_cases c r)
    next
      case (Inr u)
      then show ?thesis using a \<open>p = Inr v\<close> by (simp add: refreshAuthToken_cases c r)
    qed
  qed
qed

lemma call_substring_Inr: "call_substring v = Inr b \<longleftrightarrow> v = Str b"
  by (cases v) simp_all

lemma constructor_baseUrl:
  assumes "constructor options = Inr s"
  shows "\<exists>b. (case opt_baseUrl options of None \<Rightarrow> Str ''https://cloud.feedly.com'' | Some v \<Rightarrow> v) = Str b \<and>
         baseUrl s = (if b = ''/'' then [] else b)"
proof -
  let ?b0 = "case opt_baseUrl options of None \<Rightarrow> Str ''https://cloud.feedly.com'' | Some v \<Rightarrow> v"
  obtain b where b: "call_substring ?b0 = Inr b"
    using assms by (cases "call_substring ?b0") (simp_all add: constructor_def Let_def)
  then have 1: "?b0 = Str b" by (simp add: call_substring_Inr)
  have 2: "(if substring1 b (- 1) = ''/'' then substring b 0 (- 1) else b) = (if b = ''/'' then [] else b)"
    by (simp add: substring_def substring1_def)
  have "baseUrl s = (if substring1 b (- 1) = ''/'' then substring b 0 (- 1) else b)"
    using assms b by (auto simp: constructor_def Let_def split: if_splits)
  then show ?thesis using 1 2 by simp
qed

lemma parseInt_examples:
  "parseInt (Some ''200'') = Number 200"
  "parseInt (Some ''1700000000'') = Number 1700000000"
  "parseInt None = NaN"
  by (simp_all add: parseInt_def StrWhiteSpaceChar_def digit_val_def)

lemma falsy_ToString: "\<not> truthy v \<Longrightarrow> \<exists>a. ToString v = Inr a"
  by (cases v) simp_all

lemma falsy_default_init: "\<not> truthy (accessToken s) \<Longrightarrow> \<exists>d. default_init s = Inr d"
  using falsy_ToString [of "accessToken s"] by (auto simp: default_init_def)

lemma Str_default_init:
  "accessToken s = Str t \<Longrightarrow>
     default_init s =
       Inr \<lparr>http_method = None, headers = Some [(''Authorization'', ''OAuth '' @ t)],
            body_text = None\<rparr>"
  by (simp add: default_init_def)

lemma Object_assign_refresh_options [simp]:
  "Object_assign t (refresh_options s) = refresh_options s"
  by (simp add: Object_assign_def refresh_options_def)

lemmas run_defs = request_eq refreshAuthToken_cases fetch_chain_eq Let_def
  example_client_def net_ok_def no_options_def refresh_options_def Object_assign_def default_init_def
  token_response_def profile_response_def logAuthBody_def catchError_def

lemma example_run_state:
  "fst (request net_ok ''/v3/profile'' no_options example_client) =
     example_client
       \<lparr>accessToken := Str ''abc123'',
        lastResponse := Some profile_response,
        fetched :=
          [\<lparr>call_url = ''https://cloud.feedly.com/v3/auth/token'',
            call_init = refresh_options example_client\<rparr>,
           \<lparr>call_url = ''https://cloud.feedly.com/v3/profile'',
            call_init = \<lparr>http_method = None,
                         headers = Some [(''Authorization'', ''OAuth abc123'')],
                         body_text = None\<rparr>\<rparr>],
        console :=
          [ConsoleInfo ''Refresh of tokens was successful: %o''
             (Obj [(''id'', Str ''u1''), (''access_token'', Str ''String[6]''), (''plan'', Str ''pro'')])]\<rparr>"
  by (simp add: run_defs show_nat.simps digit_char_def)

lemma refreshAuthToken_lastResponse:
  "lastResponse (fst (refreshAuthToken net s)) =
     (case default_init s of
        Inl e \<Rightarrow> lastResponse s
      | Inr d \<Rightarrow>
          (case net (length (fetched s))
                  \<lparr>call_url = baseUrl s @ ''/v3/auth/token'', call_init = refresh_options s\<rparr> of
             Inl e \<Rightarrow> lastResponse s
           | Inr r \<Rightarrow> Some r))"
proof -
  obtain s1 p where c: "fetch_chain net ''/v3/auth/token'' (refresh_options s) s = (s1, p)"
    by (cases "fetch_chain net ''/v3/auth/token'' (refresh_options s) s")
  have "lastResponse (fst (refreshAuthToken net s)) = lastResponse s1"
    using refresh_callback_frame(4)
    by (auto simp: refreshAuthToken_cases c split: sum.splits prod.splits) (metis fst_conv)+
  then show ?thesis
    using fetch_chain_lastResponse [of net "''/v3/auth/token''" "refresh_options s" s] c
    by (simp split: sum.splits)
qed

lemma refreshAuthToken_fetched:
  "fetched (fst (refreshAuthToken net s)) =
     fetched s @
       (case default_init s of
          Inl e \<Rightarrow> []
        | Inr d \<Rightarrow> [\<lparr>call_url = baseUrl s @ ''/v3/auth/token'', call_init = refresh_options s\<rparr>])"
proof -
  obtain s1 p where c: "fetch_chain net ''/v3/auth/token'' (refresh_options s) s = (s1, p)"
    by (cases "fetch_chain net ''/v3/auth/token'' (refresh_options s) s")
  have "fetched (fst (refreshAuthToken net s)) = fetched s1"
    using refresh_callback_frame(5)
    by (auto simp: refreshAuthToken_cases c split: sum.splits prod.splits) (metis fst_conv)+
  then show ?thesis
    using fetch_chain_fetched [of net "''/v3/auth/token''" "refresh_options s" s] c
    by (simp split: sum.splits)
qed

lemma request_keeps_lastResponse:
  "lastResponse s \<noteq> None \<Longrightarrow> lastResponse (fst (request net url options s)) \<noteq> None"
  by (auto simp: request_eq fetch_chain_lastResponse refreshAuthToken_lastResponse split: sum.splits)

lemma request_fetched:
  "fetched (fst (request net url options s)) =
     (if \<not> truthy (accessToken s) \<and> url \<noteq> ''/v3/auth/token''
      then fetched s @
        [\<lparr>call_url = baseUrl s @ ''/v3/auth/token'', call_init = refresh_options s\<rparr>] @
        (case default_init (fst (refreshAuthToken net s)) of
           Inl e \<Rightarrow> []
         | Inr d \<Rightarrow> [\<lparr>call_url = baseUrl s @ url, call_init = Object_assign d options\<rparr>])
      else fetched s @
        (case default_init s of
           Inl e \<Rightarrow> []
         | Inr d \<Rightarrow> [\<lparr>call_url = baseUrl s @ url, call_init = Object_assign d options\<rparr>]))"
proof (cases "\<not> truthy (accessToken s) \<and> url \<noteq> ''/v3/auth/token''")
  case True
  then obtain d where "default_init s = Inr d" using falsy_default_init by blast
  then show ?thesis
    using True
    by (simp add: request_eq fetch_chain_fetched refreshAuthToken_fetched refreshAuthToken_frame
        split: sum.splits)
next
  case False
  then show ?thesis by (auto simp: request_eq fetch_chain_fetched)
qed






lemma refreshAuthToken_success:
  assumes "default_init s = Inr d"
    and "net (length (fetched s))
             \<lparr>call_url = baseUrl s @ ''/v3/auth/token'', call_init = refresh_options s\<rparr> = Inr r"
    and "json r = Inr b"
    and "getprop b ''access_token'' = Inr t"
    and "getprop t ''length'' = Inr n"
    and "ToString n = Inr l"
  shows "refreshAuthToken net s =
     (s\<lparr>fetched := fetched s @
           [\<lparr>call_url = baseUrl s @ ''/v3/auth/token'', call_init = refresh_options s\<rparr>],
         lastResponse := Some r,
         console := console s @
           [ConsoleInfo ''Refresh of tokens was successful: %o''
              (Obj (AList.update ''access_token'' (Str (''String['' @ l @ '']'')) (spread b)))],
         accessToken := t\<rparr>,
      Inr (Some ()))"
  using assms by (simp add: refreshAuthToken_cases fetch_chain_eq Let_def logAuthBody_def)



lemma getprop_length_defined:
  "t \<noteq> Undefined \<Longrightarrow> t \<noteq> Null \<Longrightarrow> \<exists>n. getprop t ''length'' = Inr n"
  by (cases t) simp_all



lemma fetch_chain_not_json:
  "default_init s = Inr d \<Longrightarrow>
   net (length (fetched s))
       \<lparr>call_url = baseUrl s @ url, call_init = Object_assign d options\<rparr> = Inr r \<Longrightarrow>
   json r = Inl e \<Longrightarrow>
   snd (fetch_chain net url options s) = Inr None \<and>
   console (fst (fetch_chain net url options s)) =
     console s @ [ConsoleError (''Failed to make call to '' @ url @ '': '' @ error_toString e)]"
  by (simp add: fetch_chain_eq Let_def)

lemma request_frame:
  "baseUrl (fst (request net url options s)) = baseUrl s"
  "refreshToken (fst (request net url options s)) = refreshToken s"
  "refreshTokenInstant (fst (request net url options s)) = refreshTokenInstant s"
  by (simp_all add: request_eq fetch_chain_frame refreshAuthToken_frame)

lemma request_accessToken:
  "accessToken (fst (request net url options s)) =
     (if \<not> truthy (accessToken s) \<and> url \<noteq> ''/v3/auth/token''
      then accessToken (fst (refreshAuthToken net s)) else accessToken s)"
  by (simp add: request_eq fetch_chain_frame)

lemma refreshAuthToken_changed_token:
  "accessToken (fst (refreshAuthToken net s)) \<noteq> accessToken s \<Longrightarrow>
     snd (refreshAuthToken net s) = Inr (Some ())"
proof -
  assume a: "accessToken (fst (refreshAuthToken net s)) \<noteq> accessToken s"
  obtain u where u: "snd (refreshAuthToken net s) = Inr u"
    using refreshAuthToken_resolves by blast
  show ?thesis
  proof (cases u)
    case None
    then show ?thesis using a u refreshAuthToken_failed_token by blast
  next
    case (Some x)
    then show ?thesis using u by simp
  qed
qed

lemma requests_with_token:
  "accessToken s = Str t \<Longrightarrow> t \<noteq> [] \<Longrightarrow>
     accessToken (requests net rs s) = Str t \<and>
     fetched (requests net rs s) = fetched s @
       map (\<lambda>(url, options).
              \<lparr>call_url = baseUrl s @ url,
               call_init = Object_assign
                 \<lparr>http_method = None, headers = Some [(''Authorization'', ''OAuth '' @ t)],
                  body_text = None\<rparr> options\<rparr>) rs"
proof (induction rs arbitrary: s)
  case Nil
  then show ?case by simp
next
  case (Cons x rs)
  obtain url options where x: "x = (url, options)" by (cases x)
  let ?s = "fst (request net url options s)"
  have tr: "truthy (accessToken s)" using Cons.prems by simp
  have t: "accessToken ?s = Str t"
    using Cons.prems tr by (simp add: request_accessToken)
  have b: "baseUrl ?s = baseUrl s" by (simp add: request_frame)
  have f: "fetched ?s = fetched s @
      [\<lparr>call_url = baseUrl s @ url,
        call_init = Object_assign
          \<lparr>http_method = None, headers = Some [(''Authorization'', ''OAuth '' @ t)],
           body_text = None\<rparr> options\<rparr>]"
    using tr Str_default_init [OF Cons.prems(1)] by (simp add: request_fetched)
  from Cons.IH [OF t Cons.prems(2)] show ?case
    by (simp add: x b f)
qed

lemma map_of_update_same: "map_of (AList.update k v kvs) k = Some v"
  by (simp add: AList.update_conv')

lemma update_update_same: "AList.update k v (AList.update k v' kvs) = AList.update k v kvs"
  by (induction kvs) auto

lemma logAuthBody_length_only:
  assumes "map_of kvs ''access_token'' = Some (Str t)" and "length t' = length t"
  shows "logAuthBody (Obj (AList.update ''access_token'' (Str t') kvs)) s = logAuthBody (Obj kvs) s"
  using assms by (simp add: logAuthBody_def map_of_update_same update_update_same)

lemma ToString_default_init:
  "ToString (accessToken s) = Inr a \<Longrightarrow>
     default_init s =
       Inr \<lparr>http_method = None, headers = Some [(''Authorization'', ''OAuth '' @ a)],
            body_text = None\<rparr>"
  by (simp add: default_init_def)

lemma ToString_default_init_error:
  "ToString (accessToken s) = Inl e \<Longrightarrow> default_init s = Inl e"
  by (simp add: default_init_def)


lemma constructor_lastResponse: "constructor options = Inr s \<Longrightarrow> lastResponse s = None"
proof -
  assume a: "constructor options = Inr s"
  let ?b0 = "case opt_baseUrl options of None \<Rightarrow> Str ''https://cloud.feedly.com'' | Some v \<Rightarrow> v"
  obtain b where b: "call_substring ?b0 = Inr b"
    using a by (cases "call_substring ?b0") (simp_all add: constructor_def Let_def)
  show ?thesis using a b by (auto simp: constructor_def Let_def split: if_splits)
qed

lemma request_dispatched:
  assumes "s1 = (if \<not> truthy (accessToken s) \<and> url \<noteq> ''/v3/auth/token''
                 then fst (refreshAuthToken net s) else s)"
    and "ToString (accessToken s1) = Inr a"
  shows "request net url options s = fetch_chain net url options s1"
    and "baseUrl s1 = baseUrl s"
    and "default_init s1 =
       Inr \<lparr>http_method = None, headers = Some [(''Authorization'', ''OAuth '' @ a)],
            body_text = None\<rparr>"
    and "fetched (fst (request net url options s)) = fetched s1 @
       [\<lparr>call_url = baseUrl s @ url,
         call_init = Object_assign
           \<lparr>http_method = None, headers = Some [(''Authorization'', ''OAuth '' @ a)],
            body_text = None\<rparr> options\<rparr>]"
proof -
  show r: "request net url options s = fetch_chain net url options s1"
    using assms(1) by (simp add: request_eq)
  show b: "baseUrl s1 = baseUrl s"
    using assms(1) by (simp add: refreshAuthToken_frame)
  show d: "default_init s1 =
       Inr \<lparr>http_method = None, headers = Some [(''Authorization'', ''OAuth '' @ a)],
            body_text = None\<rparr>"
    using assms(2) by (rule ToString_default_init)
  show "fetched (fst (request net url options s)) = fetched s1 @
       [\<lparr>call_url = baseUrl s @ url,
         call_init = Object_assign
           \<lparr>http_method = None, headers = Some [(''Authorization'', ''OAuth '' @ a)],
            body_text = None\<rparr> options\<rparr>]"
    unfolding r by (simp add: fetch_chain_fetched d b)
qed


section \<open>The constructor\<close>




text \<open>
  C2. The claim is that a base URL ending in a slash is stored without that slash. The
  constructor tests \<open>baseUrl.substring(-1) === "/"\<close>, and \<open>substring(-1)\<close> is the whole
  string, so the test holds for the base URL \<open>/\<close> alone (see \<open>constructor_baseUrl\<close>):
  for the options \<open>{baseUrl: "https://cloud.feedly.com/", refreshToken: "r3fresh"}\<close> the
  slash is kept.
\<close>

theorem constructor_keeps_trailing_slash:
  "constructor \<lparr>opt_baseUrl = Some (Str ''https://cloud.feedly.com/''), opt_accessToken = None,
                 opt_refreshToken = Some (Str ''r3fresh''), opt_refreshTokenInstant = None\<rparr>
     = Inr \<lparr>baseUrl = ''https://cloud.feedly.com/'', accessToken = Null,
            refreshToken = Str ''r3fresh'', refreshTokenInstant = False, lastResponse = None,
            fetched = [], console = []\<rparr>"
  by (simp add: constructor_def Let_def substring_def substring1_def)

section \<open>The rate limit\<close>

text \<open>
  C6. Reading \<open>ratelimit\<close> throws exactly when \<open>lastResponse\<close> is \<open>null\<close>, and it is \<open>null\<close>
  exactly as long as no response was recorded: the constructor leaves it \<open>null\<close> and no
  request sets it back. With a response recorded, \<open>ratelimit\<close> returns the two headers
  parsed by \<open>parseInt\<close> in base 10: the values \<open>200\<close> and \<open>1700000000\<close> give
  \<open>{count: 200, reset: 1700000000}\<close>, and a missing header gives \<open>NaN\<close>, not an error.
\<close>

theorem ratelimit_needs_response:
  "((\<exists>e. ratelimit s = Inl e) \<longleftrightarrow> lastResponse s = None) \<and>
   (lastResponse s = None \<longrightarrow>
      ratelimit s = Inl (Error ''Error'' ''Cannot get rate limits: There was no response yet'')) \<and>
   (\<forall>r. lastResponse s = Some r \<longrightarrow>
      ratelimit s = Inr \<lparr>count = parseInt (headers_get r ''X-Ratelimit-Count''),
                          reset = parseInt (headers_get r ''X-Ratelimit-Reset'')\<rparr>) \<and>
   (\<forall>r. lastResponse s = Some r \<and> headers_get r ''X-Ratelimit-Count'' = Some ''200'' \<and>
        headers_get r ''X-Ratelimit-Reset'' = Some ''1700000000'' \<longrightarrow>
      ratelimit s = Inr \<lparr>count = Number 200, reset = Number 1700000000\<rparr>) \<and>
   (\<forall>r. lastResponse s = Some r \<and> headers_get r ''X-Ratelimit-Count'' = None \<and>
        headers_get r ''X-Ratelimit-Reset'' = None \<longrightarrow>
      ratelimit s = Inr \<lparr>count = NaN, reset = NaN\<rparr>) \<and>
   (\<forall>options. constructor options = Inr s \<longrightarrow> lastResponse s = None) \<and>
   (lastResponse s \<noteq> None \<longrightarrow> lastResponse (fst (request net url options s)) \<noteq> None)"
  using constructor_lastResponse [of _ s] request_keeps_lastResponse [of s net url options]
  by (auto simp: ratelimit_def parseInt_examples split: option.splits)

theorem ratelimit_needs_response_witness:
  "ratelimit example_client =
     Inl (Error ''Error'' ''Cannot get rate limits: There was no response yet'') \<and>
   ratelimit (fst (request net_ok ''/v3/profile'' no_options example_client)) =
     Inr \<lparr>count = Number 200, reset = Number 1700000000\<rparr> \<and>
   ratelimit (fst (refreshAuthToken net_ok example_client)) = Inr \<lparr>count = NaN, reset = NaN\<rparr>"
proof -
  have a: "lastResponse example_client = None" by (simp add: example_client_def)
  have b: "lastResponse (fst (request net_ok ''/v3/profile'' no_options example_client)) = Some profile_response"
    by (simp add: example_run_state)
  have c: "lastResponse (fst (refreshAuthToken net_ok example_client)) = Some token_response"
    by (simp add: refreshAuthToken_lastResponse example_client_def net_ok_def default_init_def)
  have h: "headers_get profile_response ''X-Ratelimit-Count'' = Some ''200''"
     "headers_get profile_response ''X-Ratelimit-Reset'' = Some ''1700000000''"
     "headers_get token_response ''X-Ratelimit-Count'' = None"
     "headers_get token_response ''X-Ratelimit-Reset'' = None"
    by (simp_all add: profile_response_def token_response_def)
  show ?thesis
    using ratelimit_needs_response [of example_client]
      ratelimit_needs_response [of "fst (request net_ok ''/v3/profile'' no_options example_client)"]
      ratelimit_needs_response [of "fst (refreshAuthToken net_ok example_client)"]
      a b c h
    by (simp add: parseInt_examples)
qed

section \<open>The call that a request makes\<close>

text \<open>
  C10. A request makes its call when the access token that it reads (after the refresh it
  may have awaited, the state \<open>s1\<close>) has a string conversion. When the options of that
  request have a \<open>headers\<close> property, the call carries exactly those headers: the object
  replaces the default one, so the \<open>Authorization\<close> header is sent only if the caller has
  put it there. With \<open>{headers: {"Content-Type": "application/json"}}\<close> no
  \<open>Authorization\<close> header is sent.
\<close>

theorem request_headers_replace_default:
  assumes "s1 = (if \<not> truthy (accessToken s) \<and> url \<noteq> ''/v3/auth/token''
                 then fst (refreshAuthToken net s) else s)"
    and "ToString (accessToken s1) = Inr a"
  shows "headers options = Some h \<longrightarrow>
     last (fetched (fst (request net url options s))) =
       \<lparr>call_url = baseUrl s @ url,
        call_init = \<lparr>http_method = http_method options, headers = Some h,
                     body_text = body_text options\<rparr>\<rparr>"
  using request_dispatched(4) [OF assms, where options = options]
  by (auto simp: Object_assign_def split: option.splits)

theorem request_headers_replace_default_witness:
  "last (fetched (fst (request net_ok ''/v3/profile'' json_options example_client))) =
     \<lparr>call_url = ''https://cloud.feedly.com/v3/profile'',
      call_init = \<lparr>http_method = None, headers = Some [(''Content-Type'', ''application/json'')],
                   body_text = None\<rparr>\<rparr> \<and>
   map_of [(''Content-Type'', ''application/json'')] ''Authorization'' = None"
proof -
  have t: "accessToken (fst (refreshAuthToken net_ok example_client)) = Str ''abc123''"
    by (simp add: refreshAuthToken_cases fetch_chain_eq Let_def net_ok_def example_client_def
        token_response_def logAuthBody_def default_init_def refresh_options_def Object_assign_def)
  have c: "\<not> truthy (accessToken example_client) \<and> ''/v3/profile'' \<noteq> ''/v3/auth/token''"
    by (simp add: example_client_def)
  have a: "ToString (accessToken
      (if \<not> truthy (accessToken example_client) \<and> ''/v3/profile'' \<noteq> ''/v3/auth/token''
       then fst (refreshAuthToken net_ok example_client) else example_client)) = Inr ''abc123''"
    using c t by simp
  have j: "headers json_options = Some [(''Content-Type'', ''application/json'')]"
    "http_method json_options = None" "body_text json_options = None"
    "baseUrl example_client = ''https://cloud.feedly.com''"
    by (simp_all add: json_options_def example_client_def)
  from request_headers_replace_default
    [where s = example_client and url = "''/v3/profile''" and net = net_ok
       and options = json_options and h = "[(''Content-Type'', ''application/json'')]", OF refl a] j
  show ?thesis by simp
qed




section \<open>Errors and the last response\<close>




text \<open>
  C7. A request that is dispatched (the access token read in the state \<open>s1\<close>, which the
  awaited refresh, if any, has left, has a string conversion) stores the response it
  receives in \<open>lastResponse\<close>, in place of the one held before, and it does so before the
  body is parsed: when the body is not JSON, \<open>lastResponse\<close> is the new response all the
  same and \<open>request\<close> resolves with \<open>undefined\<close>. When the fetch is rejected
  \<open>lastResponse\<close> is left as it was.
\<close>

theorem request_overwrites_lastResponse:
  assumes "s1 = (if \<not> truthy (accessToken s) \<and> url \<noteq> ''/v3/auth/token''
                 then fst (refreshAuthToken net s) else s)"
    and "ToString (accessToken s1) = Inr a"
    and "c = \<lparr>call_url = baseUrl s @ url,
              call_init = Object_assign
                \<lparr>http_method = None, headers = Some [(''Authorization'', ''OAuth '' @ a)],
                 body_text = None\<rparr> options\<rparr>"
  shows "(\<forall>r. net (length (fetched s1)) c = Inr r \<longrightarrow>
            lastResponse (fst (request net url options s)) = Some r) \<and>
    (\<forall>r e. net (length (fetched s1)) c = Inr r \<and> json r = Inl e \<longrightarrow>
            lastResponse (fst (request net url options s)) = Some r \<and>
            snd (request net url options s) = Inr None) \<and>
    (\<forall>e. net (length (fetched s1)) c = Inl e \<longrightarrow>
            lastResponse (fst (request net url options s)) = lastResponse s1) \<and>
    (truthy (accessToken s) \<or> url = ''/v3/auth/token'' \<longrightarrow> s1 = s)"
proof -
  note q1 = request_dispatched(1) [OF assms(1,2), where options = options]
  note q = q1 request_dispatched(2,3) [OF assms(1,2)]
  have c: "c = \<lparr>call_url = baseUrl s1 @ url,
              call_init = Object_assign
                \<lparr>http_method = None, headers = Some [(''Authorization'', ''OAuth '' @ a)],
                 body_text = None\<rparr> options\<rparr>"
    using assms(3) q(2) by simp
  have l: "lastResponse (fst (request net url options s)) =
      (case net (length (fetched s1)) c of Inl e \<Rightarrow> lastResponse s1 | Inr r \<Rightarrow> Some r)"
    unfolding q(1) c by (simp add: fetch_chain_lastResponse q(3))
  have j: "\<forall>r e. net (length (fetched s1)) c = Inr r \<and> json r = Inl e \<longrightarrow>
      snd (request net url options s) = Inr None"
    unfolding q(1) c using fetch_chain_not_json [OF q(3)] by blast
  show ?thesis using l j assms(1) by (auto split: sum.splits)
qed

theorem request_overwrites_lastResponse_witness:
  "lastResponse (fst (request net_html ''/v3/profile'' no_options
       (example_client\<lparr>accessToken := Str ''abc123'', lastResponse := Some profile_response\<rparr>)))
     = Some html_response \<and>
   snd (request net_html ''/v3/profile'' no_options
       (example_client\<lparr>accessToken := Str ''abc123'', lastResponse := Some profile_response\<rparr>))
     = Inr None \<and>
   lastResponse (fst (request net_down ''/v3/profile'' no_options
       (example_client\<lparr>accessToken := Str ''abc123'', lastResponse := Some profile_response\<rparr>)))
     = Some profile_response"
proof -
  have a: "ToString (accessToken
      (if \<not> truthy (accessToken
              (example_client\<lparr>accessToken := Str ''abc123'', lastResponse := Some profile_response\<rparr>)) \<and>
          ''/v3/profile'' \<noteq> ''/v3/auth/token''
       then fst (refreshAuthToken net
              (example_client\<lparr>accessToken := Str ''abc123'', lastResponse := Some profile_response\<rparr>))
       else example_client\<lparr>accessToken := Str ''abc123'', lastResponse := Some profile_response\<rparr>))
      = Inr ''abc123''" for net
    by simp
  note html = request_overwrites_lastResponse
    [where net = net_html and url = "''/v3/profile''" and options = no_options
       and s = "example_client\<lparr>accessToken := Str ''abc123'', lastResponse := Some profile_response\<rparr>",
     OF refl a refl]
  note down = request_overwrites_lastResponse
    [where net = net_down and url = "''/v3/profile''" and options = no_options
       and s = "example_client\<lparr>accessToken := Str ''abc123'', lastResponse := Some profile_response\<rparr>",
     OF refl a refl]
  have d: "net_down n c = Inl (Error ''FetchError'' ''request failed'')" for n c
    by (simp add: net_down_def)
  have h: "net_html n c = Inr html_response"
    "json html_response = Inl (Error ''FetchError'' ''invalid json response body'')" for n c
    by (simp_all add: net_html_def html_response_def)
  from html h have
    "lastResponse (fst (request net_html ''/v3/profile'' no_options
       (example_client\<lparr>accessToken := Str ''abc123'', lastResponse := Some profile_response\<rparr>)))
     = Some html_response \<and>
     snd (request net_html ''/v3/profile'' no_options
       (example_client\<lparr>accessToken := Str ''abc123'', lastResponse := Some profile_response\<rparr>))
     = Inr None"
    by simp
  moreover from down d have
    "lastResponse (fst (request net_down ''/v3/profile'' no_options
       (example_client\<lparr>accessToken := Str ''abc123'', lastResponse := Some profile_response\<rparr>)))
     = Some profile_response"
    by simp
  ultimately show ?thesis by simp
qed

section \<open>The refresh before a request\<close>

text \<open>
  C1, as amended. A client that holds no access token (a value that is not truthy) and is
  asked for a path other than \<open>/v3/auth/token\<close> runs \<open>refreshAuthToken\<close> once, to its
  end, before anything else: one call to the token endpoint, then the call of the request
  itself (which is made when the token that the refresh has left has a string
  conversion). When the refresh has obtained a string \<open>t\<close> as the token, the call follows,
  and it carries \<open>Authorization: OAuth t\<close> when the options have no \<open>headers\<close> property.
  A client that holds a token, and any request for \<open>/v3/auth/token\<close>, makes no refresh:
  its one call, at most, is its own.
\<close>

theorem request_refreshes_once:
  assumes "rc = \<lparr>call_url = baseUrl s @ ''/v3/auth/token'', call_init = refresh_options s\<rparr>"
    and "s1 = fst (refreshAuthToken net s)"
  shows "(\<not> truthy (accessToken s) \<and> url \<noteq> ''/v3/auth/token'' \<longrightarrow>
      request net url options s = fetch_chain net url options s1 \<and>
      fetched (fst (request net url options s)) = fetched s @ [rc] @
        (case ToString (accessToken s1) of
           Inl e \<Rightarrow> []
         | Inr a \<Rightarrow>
             [\<lparr>call_url = baseUrl s @ url,
               call_init = Object_assign
                 \<lparr>http_method = None, headers = Some [(''Authorization'', ''OAuth '' @ a)],
                  body_text = None\<rparr> options\<rparr>]) \<and>
      (\<forall>r b t. net (length (fetched s)) rc = Inr r \<and> json r = Inr b \<and>
           getprop b ''access_token'' = Inr (Str t) \<longrightarrow>
         accessToken s1 = Str t \<and>
         fetched (fst (request net url options s)) = fetched s @
           [rc, \<lparr>call_url = baseUrl s @ url,
                 call_init = Object_assign
                   \<lparr>http_method = None, headers = Some [(''Authorization'', ''OAuth '' @ t)],
                    body_text = None\<rparr> options\<rparr>] \<and>
         (headers options = None \<longrightarrow>
            headers (call_init (last (fetched (fst (request net url options s))))) =
              Some [(''Authorization'', ''OAuth '' @ t)]))) \<and>
    (truthy (accessToken s) \<or> url = ''/v3/auth/token'' \<longrightarrow>
      request net url options s = fetch_chain net url options s \<and>
      fetched (fst (request net url options s)) = fetched s @
        (case ToString (accessToken s) of
           Inl e \<Rightarrow> []
         | Inr a \<Rightarrow>
             [\<lparr>call_url = baseUrl s @ url,
               call_init = Object_assign
                 \<lparr>http_method = None, headers = Some [(''Authorization'', ''OAuth '' @ a)],
                  body_text = None\<rparr> options\<rparr>]))"
proof -
  have di: "(case default_init x of
         Inl e \<Rightarrow> []
       | Inr d \<Rightarrow> [\<lparr>call_url = u, call_init = Object_assign d options\<rparr>]) =
      (case ToString (accessToken x) of
         Inl e \<Rightarrow> []
       | Inr a \<Rightarrow>
           [\<lparr>call_url = u,
             call_init = Object_assign
               \<lparr>http_method = None, headers = Some [(''Authorization'', ''OAuth '' @ a)],
                body_text = None\<rparr> options\<rparr>])" for x u
    by (simp add: default_init_def split: sum.splits)
  have q1: "\<not> truthy (accessToken s) \<and> url \<noteq> ''/v3/auth/token'' \<Longrightarrow>
      request net url options s = fetch_chain net url options s1"
    using assms(2) by (simp add: request_eq)
  have q2: "\<not> truthy (accessToken s) \<and> url \<noteq> ''/v3/auth/token'' \<Longrightarrow>
      fetched (fst (request net url options s)) = fetched s @ [rc] @
        (case ToString (accessToken s1) of
           Inl e \<Rightarrow> []
         | Inr a \<Rightarrow>
             [\<lparr>call_url = baseUrl s @ url,
               call_init = Object_assign
                 \<lparr>http_method = None, headers = Some [(''Authorization'', ''OAuth '' @ a)],
                  body_text = None\<rparr> options\<rparr>])"
    using assms by (simp add: request_fetched di)
  have q3: "accessToken s1 = Str t \<and>
         fetched (fst (request net url options s)) = fetched s @
           [rc, \<lparr>call_url = baseUrl s @ url,
                 call_init = Object_assign
                   \<lparr>http_method = None, headers = Some [(''Authorization'', ''OAuth '' @ t)],
                    body_text = None\<rparr> options\<rparr>] \<and>
         (headers options = None \<longrightarrow>
            headers (call_init (last (fetched (fst (request net url options s))))) =
              Some [(''Authorization'', ''OAuth '' @ t)])"
    if c: "\<not> truthy (accessToken s) \<and> url \<noteq> ''/v3/auth/token''"
      and n: "net (length (fetched s)) rc = Inr r" "json r = Inr b"
        "getprop b ''access_token'' = Inr (Str t)" for r b t
  proof -
    obtain d where d: "default_init s = Inr d" using c falsy_default_init by blast
    have g: "getprop (Str t) ''length'' = Inr (Num (show_nat (length t)))"
      "ToString (Num (show_nat (length t))) = Inr (show_nat (length t))"
      by simp_all
    have t: "accessToken s1 = Str t"
      using refreshAuthToken_success
        [where net = net and s = s and r = r and b = b and t = "Str t"
           and n = "Num (show_nat (length t))" and l = "show_nat (length t)",
         OF d n(1) [unfolded assms(1)] n(2,3) g] assms(2)
      by simp
    then have f: "fetched (fst (request net url options s)) = fetched s @
           [rc, \<lparr>call_url = baseUrl s @ url,
                 call_init = Object_assign
                   \<lparr>http_method = None, headers = Some [(''Authorization'', ''OAuth '' @ t)],
                    body_text = None\<rparr> options\<rparr>]"
      using q2 [OF c] by simp
    then have "headers options = None \<longrightarrow>
            headers (call_init (last (fetched (fst (request net url options s))))) =
              Some [(''Authorization'', ''OAuth '' @ t)]"
      by (simp add: Object_assign_def)
    then show ?thesis using t f by blast
  qed
  have q4: "truthy (accessToken s) \<or> url = ''/v3/auth/token'' \<Longrightarrow>
      request net url options s = fetch_chain net url options s"
    by (auto simp: request_eq)
  have q5: "truthy (accessToken s) \<or> url = ''/v3/auth/token'' \<Longrightarrow>
      fetched (fst (request net url options s)) = fetched s @
        (case ToString (accessToken s) of
           Inl e \<Rightarrow> []
         | Inr a \<Rightarrow>
             [\<lparr>call_url = baseUrl s @ url,
               call_init = Object_assign
                 \<lparr>http_method = None, headers = Some [(''Authorization'', ''OAuth '' @ a)],
                  body_text = None\<rparr> options\<rparr>])"
    by (auto simp: request_fetched di)
  show ?thesis
    using q1 q2 q3 q4 q5 by blast
qed

theorem request_refreshes_once_witness:
  "fetched (fst (request net_ok ''/v3/profile'' no_options example_client)) =
     [\<lparr>call_url = ''https://cloud.feedly.com/v3/auth/token'',
       call_init = refresh_options example_client\<rparr>,
      \<lparr>call_url = ''https://cloud.feedly.com/v3/profile'',
       call_init = \<lparr>http_method = None, headers = Some [(''Authorization'', ''OAuth abc123'')],
                    body_text = None\<rparr>\<rparr>] \<and>
   fetched (fst (request net_ok ''/v3/profile'' no_options
       (example_client\<lparr>accessToken := Str ''abc123''\<rparr>))) =
     [\<lparr>call_url = ''https://cloud.feedly.com/v3/profile'',
       call_init = \<lparr>http_method = None, headers = Some [(''Authorization'', ''OAuth abc123'')],
                    body_text = None\<rparr>\<rparr>]"
proof -
  note a = request_refreshes_once
    [where net = net_ok and url = "''/v3/profile''" and options = no_options and s = example_client,
     OF refl refl]
  note b = request_refreshes_once
    [where net = net_ok and url = "''/v3/profile''" and options = no_options
       and s = "example_client\<lparr>accessToken := Str ''abc123''\<rparr>", OF refl refl]
  have n: "net_ok (length (fetched example_client))
      \<lparr>call_url = baseUrl example_client @ ''/v3/auth/token'',
       call_init = refresh_options example_client\<rparr> = Inr token_response"
    by (simp add: net_ok_def example_client_def)
  have j: "json token_response =
      Inr (Obj [(''id'', Str ''u1''), (''access_token'', Str ''abc123''), (''plan'', Str ''pro'')])"
    by (simp add: token_response_def)
  have g: "getprop (Obj [(''id'', Str ''u1''), (''access_token'', Str ''abc123''), (''plan'', Str ''pro'')])
      ''access_token'' = Inr (Str ''abc123'')"
    by simp
  have e: "\<not> truthy (accessToken example_client)" "baseUrl example_client = ''https://cloud.feedly.com''"
    "fetched example_client = []"
    by (simp_all add: example_client_def)
  have ne: "''/v3/profile'' \<noteq> ''/v3/auth/token''" by simp
  have o: "Object_assign
      \<lparr>http_method = None, headers = Some [(''Authorization'', ''OAuth '' @ ''abc123'')], body_text = None\<rparr>
      no_options =
      \<lparr>http_method = None, headers = Some [(''Authorization'', ''OAuth abc123'')], body_text = None\<rparr>"
    by (simp add: Object_assign_def no_options_def)
  have a': "fetched (fst (request net_ok ''/v3/profile'' no_options example_client)) =
      fetched example_client @
        [\<lparr>call_url = baseUrl example_client @ ''/v3/auth/token'',
          call_init = refresh_options example_client\<rparr>,
         \<lparr>call_url = baseUrl example_client @ ''/v3/profile'',
          call_init = Object_assign
            \<lparr>http_method = None, headers = Some [(''Authorization'', ''OAuth '' @ ''abc123'')],
             body_text = None\<rparr> no_options\<rparr>]"
    using a e(1) ne n j g by blast
  have tr: "truthy (accessToken (example_client\<lparr>accessToken := Str ''abc123''\<rparr>))" by simp
  have b0: "fetched (fst (request net_ok ''/v3/profile'' no_options
       (example_client\<lparr>accessToken := Str ''abc123''\<rparr>))) =
     fetched (example_client\<lparr>accessToken := Str ''abc123''\<rparr>) @
       (case ToString (accessToken (example_client\<lparr>accessToken := Str ''abc123''\<rparr>)) of
           Inl e \<Rightarrow> []
         | Inr a \<Rightarrow>
             [\<lparr>call_url = baseUrl (example_client\<lparr>accessToken := Str ''abc123''\<rparr>) @ ''/v3/profile'',
               call_init = Object_assign
                 \<lparr>http_method = None, headers = Some [(''Authorization'', ''OAuth '' @ a)],
                  body_text = None\<rparr> no_options\<rparr>])"
    using b tr by blast
  from a' b0 e o show ?thesis by simp
qed

text \<open>
  C1 as it is stated says that the call carries the new token for all options. With the
  options \<open>{headers: {"Content-Type": "application/json"}}\<close> the refresh obtains
  \<open>abc123\<close> and the call that follows has no \<open>Authorization\<close> header: the token is
  nowhere in it.
\<close>

theorem request_carries_token_counterexample:
  "\<not> truthy (accessToken example_client) \<and>
   accessToken (fst (request net_ok ''/v3/profile'' json_options example_client)) = Str ''abc123'' \<and>
   last (fetched (fst (request net_ok ''/v3/profile'' json_options example_client))) =
     \<lparr>call_url = ''https://cloud.feedly.com/v3/profile'',
      call_init = \<lparr>http_method = None, headers = Some [(''Content-Type'', ''application/json'')],
                   body_text = None\<rparr>\<rparr> \<and>
   map_of [(''Content-Type'', ''application/json'')] ''Authorization'' = None"
proof -
  have t: "accessToken (fst (refreshAuthToken net_ok example_client)) = Str ''abc123''"
    by (simp add: refreshAuthToken_cases fetch_chain_eq Let_def net_ok_def example_client_def
        token_response_def logAuthBody_def default_init_def refresh_options_def Object_assign_def)
  have c: "\<not> truthy (accessToken example_client)" "baseUrl example_client = ''https://cloud.feedly.com''"
    by (simp_all add: example_client_def)
  have d: "default_init (fst (refreshAuthToken net_ok example_client)) =
      Inr \<lparr>http_method = None, headers = Some [(''Authorization'', ''OAuth abc123'')],
           body_text = None\<rparr>"
    using Str_default_init [OF t] by simp
  show ?thesis
    using c t d by (simp add: request_fetched request_accessToken json_options_def Object_assign_def)
qed

section \<open>The stored tokens\<close>

text \<open>
  C9, as amended. \<open>request\<close>, \<open>refreshAuthToken\<close> and the four endpoints leave the base URL
  and the refresh token as they are. The access token is assigned in \<open>refreshAuthToken\<close>
  alone, and only when the refresh succeeds: \<open>request\<close> (and so each endpoint) leaves it
  as it is when the client holds a token or the path is \<open>/v3/auth/token\<close>; otherwise
  the token after the request is the one that the awaited \<open>refreshAuthToken\<close> has left.
  The getters and \<open>ratelimit\<close> only read the state (they are functions of the state that
  return no state).
\<close>

theorem token_changed_by_refresh_only:
  "baseUrl (fst (request net url options s)) = baseUrl s \<and>
   refreshToken (fst (request net url options s)) = refreshToken s \<and>
   baseUrl (fst (refreshAuthToken net s)) = baseUrl s \<and>
   refreshToken (fst (refreshAuthToken net s)) = refreshToken s \<and>
   (truthy (accessToken s) \<or> url = ''/v3/auth/token'' \<longrightarrow>
      accessToken (fst (request net url options s)) = accessToken s) \<and>
   (\<not> truthy (accessToken s) \<and> url \<noteq> ''/v3/auth/token'' \<longrightarrow>
      accessToken (fst (request net url options s)) = accessToken (fst (refreshAuthToken net s))) \<and>
   (accessToken (fst (refreshAuthToken net s)) \<noteq> accessToken s \<longrightarrow>
      snd (refreshAuthToken net s) = Inr (Some ())) \<and>
   (\<forall>f \<in> set [profile net, collections net, subscriptions net, streams net query].
      baseUrl (fst (f s)) = baseUrl s \<and> refreshToken (fst (f s)) = refreshToken s \<and>
      (truthy (accessToken s) \<longrightarrow> accessToken (fst (f s)) = accessToken s) \<and>
      (\<not> truthy (accessToken s) \<longrightarrow>
         accessToken (fst (f s)) = accessToken (fst (refreshAuthToken net s))))"
proof -
  have w: "''/v3/profile'' \<noteq> ''/v3/auth/token''" "''/v3/collections'' \<noteq> ''/v3/auth/token''"
    "''/v3/subscriptions'' \<noteq> ''/v3/auth/token''"
    "''/v3/streams/contents?'' @ query \<noteq> ''/v3/auth/token''"
    by simp_all
  have r: "accessToken (fst (refreshAuthToken net s)) \<noteq> accessToken s \<longrightarrow>
      snd (refreshAuthToken net s) = Inr (Some ())"
    using refreshAuthToken_changed_token by blast
  show ?thesis
    using r w
    by (simp add: request_frame refreshAuthToken_frame request_accessToken
        profile_def collections_def subscriptions_def streams_def)
qed

theorem token_changed_by_refresh_only_witness:
  "accessToken (fst (request net_ok ''/v3/profile'' no_options
      (example_client\<lparr>accessToken := Str ''abc123''\<rparr>))) = Str ''abc123'' \<and>
   accessToken (fst (subscriptions net_ok (example_client\<lparr>accessToken := Str ''abc123''\<rparr>)))
     = Str ''abc123'' \<and>
   snd (refreshAuthToken net_ok example_client) = Inr (Some ()) \<and>
   baseUrl (fst (request net_ok ''/v3/profile'' no_options example_client)) = ''https://cloud.feedly.com'' \<and>
   refreshToken (fst (request net_ok ''/v3/profile'' no_options example_client)) = Str ''r3fresh''"
proof -
  note a = token_changed_by_refresh_only
    [where net = net_ok and url = "''/v3/profile''" and options = no_options
       and s = "example_client\<lparr>accessToken := Str ''abc123''\<rparr>" and query = "[]"]
  note b = token_changed_by_refresh_only
    [where net = net_ok and url = "''/v3/profile''" and options = no_options
       and s = example_client and query = "[]"]
  have tr: "truthy (accessToken (example_client\<lparr>accessToken := Str ''abc123''\<rparr>))"
    "accessToken (example_client\<lparr>accessToken := Str ''abc123''\<rparr>) = Str ''abc123''"
    by simp_all
  have e: "accessToken example_client = Null" "baseUrl example_client = ''https://cloud.feedly.com''"
    "refreshToken example_client = Str ''r3fresh''"
    by (simp_all add: example_client_def)
  have t: "accessToken (fst (refreshAuthToken net_ok example_client)) = Str ''abc123''"
    by (simp add: refreshAuthToken_cases fetch_chain_eq Let_def net_ok_def example_client_def
        token_response_def logAuthBody_def default_init_def refresh_options_def Object_assign_def)
  from a tr have
    "accessToken (fst (request net_ok ''/v3/profile'' no_options
        (example_client\<lparr>accessToken := Str ''abc123''\<rparr>))) = Str ''abc123'' \<and>
     accessToken (fst (subscriptions net_ok (example_client\<lparr>accessToken := Str ''abc123''\<rparr>)))
       = Str ''abc123''"
    by simp
  moreover from b e t have
    "snd (refreshAuthToken net_ok example_client) = Inr (Some ()) \<and>
     baseUrl (fst (request net_ok ''/v3/profile'' no_options example_client)) = ''https://cloud.feedly.com'' \<and>
     refreshToken (fst (request net_ok ''/v3/profile'' no_options example_client)) = Str ''r3fresh''"
    by simp
  ultimately show ?thesis by simp
qed

text \<open>
  C9 as it is stated lists \<open>request\<close> and \<open>profile\<close> among the operations that leave the
  access token unchanged. On a client without a token each of them awaits a refresh, and
  the token is \<open>abc123\<close> afterwards where it was \<open>null\<close> before.
\<close>

theorem request_changes_token_counterexample:
  "accessToken example_client = Null \<and>
   accessToken (fst (request net_ok ''/v3/profile'' no_options example_client)) = Str ''abc123'' \<and>
   accessToken (fst (profile net_ok example_client)) = Str ''abc123''"
  by (simp add: profile_def example_run_state) (simp add: example_client_def)

section \<open>The token of a refresh and its log line\<close>

text \<open>
  C4, as amended. When \<open>refreshAuthToken\<close> makes its call (the token it finds has a string
  conversion) and the response is an object whose \<open>access_token\<close> is the string \<open>t\<close>, it
  stores \<open>t\<close> and writes one line with \<open>console.info\<close>: the copy of the body in which
  \<open>access_token\<close> is \<open>String[n]\<close>, \<open>n\<close> the length of \<open>t\<close>, and every other property is as
  in the body. The line depends on the token through its length alone: a body with
  another token of that length gives the same line. When \<open>t\<close> is not empty, every request
  made afterwards (one after the other, no other refresh in between) keeps the token and
  sends the caller's options assigned over the default header \<open>Authorization: OAuth t\<close>,
  which is the header sent when the options have no \<open>headers\<close> property.
\<close>

theorem refresh_stores_and_redacts:
  assumes "ToString (accessToken s) = Inr a"
    and "net (length (fetched s))
             \<lparr>call_url = baseUrl s @ ''/v3/auth/token'', call_init = refresh_options s\<rparr> = Inr r"
    and "json r = Inr (Obj kvs)"
    and "map_of kvs ''access_token'' = Some (Str t)"
    and "s1 = fst (refreshAuthToken net s)"
  shows "accessToken s1 = Str t \<and>
    console s1 = console s @
      [ConsoleInfo ''Refresh of tokens was successful: %o''
         (Obj (AList.update ''access_token'' (Str (''String['' @ show_nat (length t) @ '']'')) kvs))] \<and>
    (\<forall>t' s0. length t' = length t \<longrightarrow>
       logAuthBody (Obj (AList.update ''access_token'' (Str t') kvs)) s0 = logAuthBody (Obj kvs) s0) \<and>
    (t \<noteq> [] \<longrightarrow>
       (\<forall>rs. accessToken (requests net rs s1) = Str t \<and>
          fetched (requests net rs s1) = fetched s1 @
            map (\<lambda>(url, options).
                   \<lparr>call_url = baseUrl s @ url,
                    call_init = Object_assign
                      \<lparr>http_method = None,
                       headers = Some [(''Authorization'', ''OAuth '' @ t)],
                       body_text = None\<rparr> options\<rparr>) rs)) \<and>
    (\<forall>options. headers options = None \<longrightarrow>
       headers (Object_assign
          \<lparr>http_method = None, headers = Some [(''Authorization'', ''OAuth '' @ t)],
           body_text = None\<rparr> options) = Some [(''Authorization'', ''OAuth '' @ t)])"
proof -
  have g: "getprop (Obj kvs) ''access_token'' = Inr (Str t)"
    "getprop (Str t) ''length'' = Inr (Num (show_nat (length t)))"
    "ToString (Num (show_nat (length t))) = Inr (show_nat (length t))"
    using assms(4) by simp_all
  note ok = refreshAuthToken_success
    [where net = net and s = s and r = r and b = "Obj kvs" and t = "Str t"
       and n = "Num (show_nat (length t))" and l = "show_nat (length t)",
     OF ToString_default_init [OF assms(1)] assms(2) assms(3) g]
  have 1: "accessToken s1 = Str t" using assms(5) by (simp add: ok)
  have 2: "console s1 = console s @
      [ConsoleInfo ''Refresh of tokens was successful: %o''
         (Obj (AList.update ''access_token'' (Str (''String['' @ show_nat (length t) @ '']'')) kvs))]"
    using assms(5) by (simp add: ok)
  have 3: "\<forall>t' s0. length t' = length t \<longrightarrow>
       logAuthBody (Obj (AList.update ''access_token'' (Str t') kvs)) s0 = logAuthBody (Obj kvs) s0"
    using logAuthBody_length_only [OF assms(4)] by blast
  have b: "baseUrl s1 = baseUrl s" using assms(5) by (simp add: refreshAuthToken_frame)
  have 4: "t \<noteq> [] \<longrightarrow>
       (\<forall>rs. accessToken (requests net rs s1) = Str t \<and>
          fetched (requests net rs s1) = fetched s1 @
            map (\<lambda>(url, options).
                   \<lparr>call_url = baseUrl s @ url,
                    call_init = Object_assign
                      \<lparr>http_method = None,
                       headers = Some [(''Authorization'', ''OAuth '' @ t)],
                       body_text = None\<rparr> options\<rparr>) rs)"
    using requests_with_token [OF 1, of net] b by simp
  have 5: "\<forall>options. headers options = None \<longrightarrow>
       headers (Object_assign
          \<lparr>http_method = None, headers = Some [(''Authorization'', ''OAuth '' @ t)],
           body_text = None\<rparr> options) = Some [(''Authorization'', ''OAuth '' @ t)]"
    by (simp add: Object_assign_def)
  show ?thesis using 1 2 3 4 5 by blast
qed

theorem refresh_stores_and_redacts_witness:
  "accessToken (fst (refreshAuthToken net_ok example_client)) = Str ''abc123'' \<and>
   console (fst (refreshAuthToken net_ok example_client)) =
     [ConsoleInfo ''Refresh of tokens was successful: %o''
        (Obj [(''id'', Str ''u1''), (''access_token'', Str ''String[6]''), (''plan'', Str ''pro'')])] \<and>
   fetched (requests net_ok [(''/v3/profile'', no_options), (''/v3/subscriptions'', no_options)]
       (fst (refreshAuthToken net_ok example_client))) =
     fetched (fst (refreshAuthToken net_ok example_client)) @
       [\<lparr>call_url = ''https://cloud.feedly.com/v3/profile'',
         call_init = \<lparr>http_method = None, headers = Some [(''Authorization'', ''OAuth abc123'')],
                      body_text = None\<rparr>\<rparr>,
        \<lparr>call_url = ''https://cloud.feedly.com/v3/subscriptions'',
         call_init = \<lparr>http_method = None, headers = Some [(''Authorization'', ''OAuth abc123'')],
                      body_text = None\<rparr>\<rparr>]"
proof -
  have a: "ToString (accessToken example_client) = Inr ''null''"
    by (simp add: example_client_def)
  have n: "net_ok (length (fetched example_client))
      \<lparr>call_url = baseUrl example_client @ ''/v3/auth/token'',
       call_init = refresh_options example_client\<rparr> = Inr token_response"
    by (simp add: net_ok_def example_client_def)
  have j: "json token_response =
      Inr (Obj [(''id'', Str ''u1''), (''access_token'', Str ''abc123''), (''plan'', Str ''pro'')])"
    by (simp add: token_response_def)
  have m: "map_of [(''id'', Str ''u1''), (''access_token'', Str ''abc123''), (''plan'', Str ''pro'')]
      ''access_token'' = Some (Str ''abc123'')"
    by simp
  note w = refresh_stores_and_redacts
    [where net = net_ok and s = example_client and r = token_response and t = "''abc123''"
       and kvs = "[(''id'', Str ''u1''), (''access_token'', Str ''abc123''), (''plan'', Str ''pro'')]",
     OF a n j m refl]
  have e: "console example_client = []" "baseUrl example_client = ''https://cloud.feedly.com''"
    by (simp_all add: example_client_def)
  have o: "Object_assign
      \<lparr>http_method = None, headers = Some [(''Authorization'', ''OAuth abc123'')], body_text = None\<rparr>
      no_options =
      \<lparr>http_method = None, headers = Some [(''Authorization'', ''OAuth abc123'')], body_text = None\<rparr>"
    by (simp add: Object_assign_def no_options_def)
  from w have "fetched (requests net_ok [(''/v3/profile'', no_options), (''/v3/subscriptions'', no_options)]
       (fst (refreshAuthToken net_ok example_client))) =
     fetched (fst (refreshAuthToken net_ok example_client)) @
       map (\<lambda>(url, options).
              \<lparr>call_url = baseUrl example_client @ url,
               call_init = Object_assign
                 \<lparr>http_method = None, headers = Some [(''Authorization'', ''OAuth '' @ ''abc123'')],
                  body_text = None\<rparr> options\<rparr>)
         [(''/v3/profile'', no_options), (''/v3/subscriptions'', no_options)]"
    by blast
  then have f: "fetched (requests net_ok [(''/v3/profile'', no_options), (''/v3/subscriptions'', no_options)]
       (fst (refreshAuthToken net_ok example_client))) =
     fetched (fst (refreshAuthToken net_ok example_client)) @
       [\<lparr>call_url = ''https://cloud.feedly.com/v3/profile'',
         call_init = \<lparr>http_method = None, headers = Some [(''Authorization'', ''OAuth abc123'')],
                      body_text = None\<rparr>\<rparr>,
        \<lparr>call_url = ''https://cloud.feedly.com/v3/subscriptions'',
         call_init = \<lparr>http_method = None, headers = Some [(''Authorization'', ''OAuth abc123'')],
                      body_text = None\<rparr>\<rparr>]"
    using o e(2) by simp
  from w e(1) have "accessToken (fst (refreshAuthToken net_ok example_client)) = Str ''abc123'' \<and>
     console (fst (refreshAuthToken net_ok example_client)) =
       [ConsoleInfo ''Refresh of tokens was successful: %o''
          (Obj [(''id'', Str ''u1''), (''access_token'', Str ''String[6]''), (''plan'', Str ''pro'')])]"
    by (simp add: show_nat.simps digit_char_def)
  with f show ?thesis by simp
qed

text \<open>
  C4 as it is stated says that the token never appears in the log and that every request
  afterwards carries it. For the body \<open>{access_token: "abc123", token: "abc123"}\<close> the
  object that is logged holds \<open>abc123\<close> under \<open>token\<close>, and a request whose options bring
  \<open>{headers: {"Content-Type": "application/json"}}\<close> is sent without the
  \<open>Authorization\<close> header.
\<close>

theorem refresh_log_counterexample:
  "accessToken (fst (refreshAuthToken net_echo example_client)) = Str ''abc123'' \<and>
   console (fst (refreshAuthToken net_echo example_client)) =
     [ConsoleInfo ''Refresh of tokens was successful: %o''
        (Obj [(''access_token'', Str ''String[6]''), (''token'', Str ''abc123'')])] \<and>
   last (fetched (fst (request net_echo ''/v3/profile'' json_options
       (fst (refreshAuthToken net_echo example_client))))) =
     \<lparr>call_url = ''https://cloud.feedly.com/v3/profile'',
      call_init = \<lparr>http_method = None, headers = Some [(''Content-Type'', ''application/json'')],
                   body_text = None\<rparr>\<rparr>"
proof -
  have d: "default_init example_client =
      Inr \<lparr>http_method = None, headers = Some [(''Authorization'', ''OAuth null'')], body_text = None\<rparr>"
    by (simp add: default_init_def example_client_def)
  have r: "refreshAuthToken net_echo example_client =
     (example_client
        \<lparr>fetched := fetched example_client @
           [\<lparr>call_url = baseUrl example_client @ ''/v3/auth/token'',
             call_init = refresh_options example_client\<rparr>],
         lastResponse := Some echo_response,
         console := console example_client @
           [ConsoleInfo ''Refresh of tokens was successful: %o''
              (Obj (AList.update ''access_token'' (Str (''String['' @ show_nat (length ''abc123'') @ '']''))
                 (spread (Obj [(''access_token'', Str ''abc123''), (''token'', Str ''abc123'')]))))],
         accessToken := Str ''abc123''\<rparr>,
      Inr (Some ()))"
    by (rule refreshAuthToken_success
          [where r = echo_response and d = "\<lparr>http_method = None,
             headers = Some [(''Authorization'', ''OAuth null'')], body_text = None\<rparr>"
             and n = "Num (show_nat (length ''abc123''))"])
       (simp_all add: net_echo_def example_client_def echo_response_def d [unfolded example_client_def])
  have a: "accessToken (fst (refreshAuthToken net_echo example_client)) = Str ''abc123''"
    by (simp add: r)
  have c: "console (fst (refreshAuthToken net_echo example_client)) =
     [ConsoleInfo ''Refresh of tokens was successful: %o''
        (Obj [(''access_token'', Str ''String[6]''), (''token'', Str ''abc123'')])]"
    by (simp add: r) (simp add: example_client_def show_nat.simps digit_char_def)
  have b: "baseUrl (fst (refreshAuthToken net_echo example_client)) = ''https://cloud.feedly.com''"
    by (simp add: r) (simp add: example_client_def)
  have l: "last (fetched (fst (request net_echo ''/v3/profile'' json_options S))) =
     \<lparr>call_url = baseUrl S @ ''/v3/profile'',
      call_init = \<lparr>http_method = None, headers = Some [(''Content-Type'', ''application/json'')],
                   body_text = None\<rparr>\<rparr>" if "accessToken S = Str ''abc123''" for S
    using that
    by (simp add: request_fetched Object_assign_def json_options_def default_init_def)
  show ?thesis using a c b l [OF a] by simp
qed

end
